theory Spec2Isabelle
  imports Main "HOL-Library.Char_ord" "HOL-Library.List_Lexorder"
begin

section \<open>The item store (models/GroceryItem.js)\<close>

text \<open>
  The table \<open>grocery_items\<close> is a list of rows in rowid order, which is the order in
  which SQLite scans the table when a query has no \<open>ORDER BY\<close>. The column
  \<open>status\<close> holds one of five strings that the code compares against; they are the
  constructors of \<open>status\<close>. Strings are byte lists (UTF-8). A quantity is an
  integer; \<open>batch_id\<close> is nullable.
\<close>

datatype status = Pending | Selected | Found | Not_found | Confirming

record row =
  item_id :: nat
  article :: string
  quantity :: int
  category :: string
  status :: status
  batch_id :: "string option"
  created_at :: nat

type_synonym store = "row list"

datatype error =
    NotFound
  | ItemNotFound nat
  | WrongStatus nat status
  | ParsingFailed

text \<open>
  The constructor \<open>new GroceryItem(data)\<close> copies the fields of a row, replacing a
  falsy quantity by 1 (\<open>data.quantity || 1\<close>). An object that was never saved has no
  id; \<open>this.id\<close> is tested for truthiness only, so the missing id is the falsy id 0.
\<close>

definition GroceryItem :: "row \<Rightarrow> row" where
  "GroceryItem data = data\<lparr>quantity := (if quantity data = 0 then 1 else quantity data)\<rparr>"

text \<open>SQLite's \<open>LOWER\<close> folds the ASCII letters A-Z only.\<close>

definition lower_char :: "char \<Rightarrow> char" where
  "lower_char c =
     (let n = (of_char c :: nat) in if 65 \<le> n \<and> n \<le> 90 then char_of (n + 32) else c)"

definition LOWER :: "string \<Rightarrow> string" where
  "LOWER s = map lower_char s"

definition findById :: "store \<Rightarrow> nat \<Rightarrow> row option" where
  "findById s i = map_option GroceryItem (find (\<lambda>r. item_id r = i) s)"

definition findByArticle :: "store \<Rightarrow> string \<Rightarrow> row option" where
  "findByArticle s a = map_option GroceryItem (find (\<lambda>r. LOWER (article r) = LOWER a) s)"


definition findByStatus :: "store \<Rightarrow> status \<Rightarrow> row list" where
  "findByStatus s st =
     map GroceryItem (sort_key (\<lambda>r. - int (created_at r)) (filter (\<lambda>r. status r = st) s))"

definition findByBatchId :: "store \<Rightarrow> string \<Rightarrow> row list" where
  "findByBatchId s b =
     map GroceryItem (sort_key created_at (filter (\<lambda>r. batch_id r = Some b) s))"

definition findByBatchIdAndStatus :: "store \<Rightarrow> string \<Rightarrow> status \<Rightarrow> row list" where
  "findByBatchIdAndStatus s b st =
     map GroceryItem
       (sort_key created_at (filter (\<lambda>r. batch_id r = Some b \<and> status r = st) s))"

text \<open>\<open>updateStatus\<close> returns \<open>result.changes > 0\<close> and the store after the UPDATE.\<close>

definition updateStatus :: "store \<Rightarrow> nat \<Rightarrow> status \<Rightarrow> bool \<times> store" where
  "updateStatus s i st =
     (\<exists>r \<in> set s. item_id r = i,
      map (\<lambda>r. if item_id r = i then r\<lparr>status := st\<rparr> else r) s)"

text \<open>
  Modelled from the spec: the schema lives in config/database, which is not among the
  sources; the spec gives \<open>id PRIMARY KEY, auto-increment\<close> and a \<open>created_at\<close> time
  stamp. An INSERT appends a row whose id is one more than the largest id and whose
  \<open>created_at\<close> is the current time \<open>now\<close>.
\<close>

definition next_id :: "store \<Rightarrow> nat" where
  "next_id s = Suc (fold max (map item_id s) 0)"

text \<open>
  \<open>save()\<close>: UPDATE of the five columns when the object has an id, INSERT otherwise.
  Returns the store and the object (whose id is set by the INSERT).
\<close>

definition save :: "nat \<Rightarrow> store \<Rightarrow> row \<Rightarrow> store \<times> row" where
  "save now s it =
     (if item_id it \<noteq> 0 then
        (map (\<lambda>r. if item_id r = item_id it
                   then r\<lparr>article := article it, quantity := quantity it,
                          category := category it, status := status it,
                          batch_id := batch_id it\<rparr>
                   else r) s, it)
      else
        (let i = next_id s
         in (s @ [it\<lparr>item_id := i, created_at := now\<rparr>], it\<lparr>item_id := i\<rparr>)))"

text \<open>\<open>delete()\<close>: false without touching the table when the object has no id.\<close>

definition delete_item :: "store \<Rightarrow> row \<Rightarrow> bool \<times> store" where
  "delete_item s it =
     (if item_id it = 0 then (False, s)
      else (\<exists>r \<in> set s. item_id r = item_id it,
            filter (\<lambda>r. item_id r \<noteq> item_id it) s))"

text \<open>Ids are a primary key assigned from 1 upwards.\<close>

definition wf_store :: "store \<Rightarrow> bool" where
  "wf_store s = (distinct (map item_id s) \<and> 0 \<notin> set (map item_id s))"

section \<open>Shopping navigator: the tap cycle\<close>

text \<open>
  \<open>createShoppingListKeyboard\<close> computes, for each listed item, the status its button
  will set (\<open>nextStatus\<close>, a switch with a default branch); pressing the button runs
  \<open>handleItemStatus\<close>, which calls \<open>updateItemStatus(itemId, newStatus)\<close>.
\<close>

fun nextStatus :: "status \<Rightarrow> status" where
  "nextStatus Selected = Found"
| "nextStatus Not_found = Pending"
| "nextStatus _ = Selected"

definition updateItemStatus :: "store \<Rightarrow> nat \<Rightarrow> status \<Rightarrow> bool \<times> store" where
  "updateItemStatus s itemId newStatus = updateStatus s itemId newStatus"

text \<open>One tap on the button of item \<open>itemId\<close>: the new status and the store, or nothing
  when the item does not exist.\<close>

definition tapItem :: "store \<Rightarrow> nat \<Rightarrow> (status \<times> store) option" where
  "tapItem s itemId =
     (case findById s itemId of
        None \<Rightarrow> None
      | Some item \<Rightarrow>
          (let newStatus = nextStatus (status item)
           in Some (newStatus, snd (updateItemStatus s itemId newStatus))))"

section \<open>Batch lifecycle manager (services/groceryService.js and its later version)\<close>

text \<open>
  \<open>confirmItemFromBatch(itemId)\<close>, identical in both versions of the service. The result
  is the returned item or the thrown error, and the store afterwards. The quantities are
  integers, on which \<open>parseInt\<close> is the identity.
\<close>

definition confirmItemFromBatch :: "nat \<Rightarrow> store \<Rightarrow> nat \<Rightarrow> (error + row) \<times> store" where
  "confirmItemFromBatch now s itemId =
     (case findById s itemId of
        None \<Rightarrow> (Inl (ItemNotFound itemId), s)
      | Some tempItem \<Rightarrow>
          if status tempItem \<noteq> Confirming then
            (if status tempItem = Pending then (Inr tempItem, s)
             else (Inl (WrongStatus itemId (status tempItem)), s))
          else
            (case findByArticle s (article tempItem) of
               Some existingItem \<Rightarrow>
                 if batch_id existingItem \<noteq> batch_id tempItem then
                   (let e1 = existingItem\<lparr>quantity := quantity existingItem + quantity tempItem,
                                           category := category tempItem,
                                           batch_id := batch_id tempItem\<rparr>;
                        e2 = (if status e1 = Not_found \<or> status e1 = Found
                              then e1\<lparr>status := Pending\<rparr> else e1);
                        (s1, e3) = save now s e2;
                        (deleted, s2) = delete_item s1 tempItem
                    in (Inr e3, s2))
                 else
                   (let (s1, t1) = save now s (tempItem\<lparr>status := Pending\<rparr>)
                    in (Inr t1, s1))
             | None \<Rightarrow>
                 (let (s1, t1) = save now s (tempItem\<lparr>status := Pending\<rparr>)
                  in (Inr t1, s1))))"

text \<open>
  \<open>handleConfirmItem(batchId, itemId)\<close> of the explicit-confirmation handlers: the
  stale-button check, then the confirmation. The check answers the callback with the
  notice "Item not found or batch mismatch" and returns; that is \<open>NotFound\<close>.
\<close>

definition handleConfirmItem :: "nat \<Rightarrow> store \<Rightarrow> string \<Rightarrow> nat \<Rightarrow> (error + row) \<times> store" where
  "handleConfirmItem now s batchId itemId =
     (case findById s itemId of
        None \<Rightarrow> (Inl NotFound, s)
      | Some tempItem \<Rightarrow>
          if batch_id tempItem \<noteq> Some batchId then (Inl NotFound, s)
          else confirmItemFromBatch now s itemId)"

text \<open>The same handler in the auto-add version: the same check, then only an
  acknowledgement of the item, which is already in the list.\<close>

definition handleConfirmItem_autoadd :: "store \<Rightarrow> string \<Rightarrow> nat \<Rightarrow> (error + row) \<times> store" where
  "handleConfirmItem_autoadd s batchId itemId =
     (case findById s itemId of
        None \<Rightarrow> (Inl NotFound, s)
      | Some item \<Rightarrow>
          if batch_id item \<noteq> Some batchId then (Inl NotFound, s)
          else (Inr item, s))"

text \<open>The loop \<open>for (const item of items) { if (await item.delete()) deletedCount++ }\<close>.\<close>

fun delete_each :: "store \<Rightarrow> row list \<Rightarrow> nat \<Rightarrow> nat \<times> store" where
  "delete_each s [] deletedCount = (deletedCount, s)"
| "delete_each s (item # items) deletedCount =
     (let (success, s') = delete_item s item
      in delete_each s' items (if success then Suc deletedCount else deletedCount))"

text \<open>\<open>cancelBatch\<close> of the explicit-confirmation service (services/groceryService.js).\<close>

definition cancelBatch :: "store \<Rightarrow> string \<Rightarrow> nat \<times> store" where
  "cancelBatch s batchId = delete_each s (findByBatchIdAndStatus s batchId Confirming) 0"

text \<open>\<open>cancelBatch\<close> of the auto-add service: every item of the batch.\<close>

definition cancelBatch_autoadd :: "store \<Rightarrow> string \<Rightarrow> nat \<times> store" where
  "cancelBatch_autoadd s batchId = delete_each s (findByBatchId s batchId) 0"

text \<open>
  \<open>editItem(itemId, newCategory, newQuantity, newNote)\<close>. The note is set on the object
  and returned with it; \<open>save()\<close> does not write it.
\<close>

definition editItem ::
  "nat \<Rightarrow> store \<Rightarrow> nat \<Rightarrow> string \<Rightarrow> int \<Rightarrow> string \<Rightarrow> (error + row \<times> string) \<times> store" where
  "editItem now s itemId newCategory newQuantity newNote =
     (case findById s itemId of
        None \<Rightarrow> (Inl (ItemNotFound itemId), s)
      | Some item \<Rightarrow>
          (let (s1, item1) = save now s (item\<lparr>category := newCategory, quantity := newQuantity\<rparr>)
           in (Inr (item1, newNote), s1)))"

text \<open>
  The quantity controls of \<open>createEditKeyboard\<close>: the quantities carried by the minus and
  the plus button, \<open>Math.max(1, currentQuantity - 1)\<close> and \<open>currentQuantity + 1\<close>.
\<close>

definition createEditKeyboard_minus :: "int \<Rightarrow> int" where
  "createEditKeyboard_minus currentQuantity = max 1 (currentQuantity - 1)"

definition createEditKeyboard_plus :: "int \<Rightarrow> int" where
  "createEditKeyboard_plus currentQuantity = currentQuantity + 1"

text \<open>\<open>handleUpdateQuantity\<close> passes the quantity of the pressed button to \<open>editItem\<close>
  (after \<open>parseInt\<close> of its decimal text).\<close>

definition handleUpdateQuantity ::
  "nat \<Rightarrow> store \<Rightarrow> nat \<Rightarrow> string \<Rightarrow> int \<Rightarrow> string \<Rightarrow> (error + row \<times> string) \<times> store" where
  "handleUpdateQuantity now s itemId cat qty note = editItem now s itemId cat qty note"

section \<open>Product cache: parsing a line (services/productCacheService.js)\<close>

text \<open>
  Characters are bytes. White space (\<open>\s\<close> and \<open>trim()\<close>) is tab, line feed, vertical
  tab, form feed, carriage return and space; a line terminator, which \<open>.\<close> does not
  match, is line feed or carriage return; \<open>\d\<close> is 0-9. The white space and line
  terminators beyond ASCII are ordinary characters here.
\<close>

definition isWhitespace :: "char \<Rightarrow> bool" where
  "isWhitespace c = (of_char c \<in> {9, 10, 11, 12, 13, 32 :: nat})"

definition isLineTerminator :: "char \<Rightarrow> bool" where
  "isLineTerminator c = (of_char c \<in> {10, 13 :: nat})"

definition isDigit :: "char \<Rightarrow> bool" where
  "isDigit c = (48 \<le> (of_char c :: nat) \<and> (of_char c :: nat) \<le> 57)"

definition trim :: "string \<Rightarrow> string" where
  "trim s = rev (dropWhile isWhitespace (rev (dropWhile isWhitespace s)))"

text \<open>
  \<open>parseInt(string)\<close> without a radix: leading white space, a sign, a \<open>0x\<close> prefix, then the
  longest run of digits of the radix; NaN, here \<open>None\<close>, when there is none. Numbers are
  exact integers.
\<close>

definition digit_val :: "char \<Rightarrow> nat" where
  "digit_val c =
     (let n = (of_char c :: nat)
      in if 48 \<le> n \<and> n \<le> 57 then n - 48
         else if 97 \<le> n \<and> n \<le> 122 then n - 87
         else if 65 \<le> n \<and> n \<le> 90 then n - 55
         else 36)"

fun strip_sign :: "string \<Rightarrow> bool \<times> string" where
  "strip_sign [] = (False, [])"
| "strip_sign (c # r) =
     (if c = CHR ''-'' then (True, r) else if c = CHR ''+'' then (False, r) else (False, c # r))"

fun strip_radix :: "string \<Rightarrow> nat \<times> string" where
  "strip_radix (a # b # r) =
     (if a = CHR ''0'' \<and> (b = CHR ''x'' \<or> b = CHR ''X'') then (16, r) else (10, a # b # r))"
| "strip_radix s = (10, s)"

definition parseInt :: "string \<Rightarrow> int option" where
  "parseInt str =
     (let (neg, s2) = strip_sign (dropWhile isWhitespace str);
          (radix, s3) = strip_radix s2;
          ds = takeWhile (\<lambda>c. digit_val c < radix) s3;
          n = foldl (\<lambda>a c. a * radix + digit_val c) 0 ds
      in if ds = [] then None else Some (if neg then - int n else int n))"

text \<open>
  A greedy quantifier tries its longest match first and gives characters back one by one:
  \<open>longest_first f m\<close> is the first success of \<open>f\<close> on the lengths \<open>m, m - 1, ..., 1\<close>.
\<close>

fun longest_first :: "(nat \<Rightarrow> 'a option) \<Rightarrow> nat \<Rightarrow> 'a option" where
  "longest_first f 0 = None"
| "longest_first f (Suc n) =
     (case f (Suc n) of Some r \<Rightarrow> Some r | None \<Rightarrow> longest_first f n)"

text \<open>
  \<open>trimmed.match(/^(\d+)\s+(.+)$/u)\<close>: a run of digits, a run of white space, and the
  rest of the string, which must be non-empty and free of line terminators. The result
  is the pair of the two groups.
\<close>

definition qtyFirstMatch :: "string \<Rightarrow> (string \<times> string) option" where
  "qtyFirstMatch t =
     longest_first (\<lambda>n.
       longest_first (\<lambda>k.
         (let rest = drop (n + k) t
          in if rest \<noteq> [] \<and> list_all (\<lambda>c. \<not> isLineTerminator c) rest
             then Some (take n t, rest) else None))
         (length (takeWhile isWhitespace (drop n t))))
       (length (takeWhile isDigit t))"

text \<open>
  \<open>trimmed.match(/^(.+)\s+(\d+)$/u)\<close>: a prefix free of line terminators, a run of white
  space, and the rest of the string, which must be a non-empty run of digits.
\<close>

definition qtyLastMatch :: "string \<Rightarrow> (string \<times> string) option" where
  "qtyLastMatch t =
     longest_first (\<lambda>g.
       longest_first (\<lambda>k.
         (let rest = drop (g + k) t
          in if rest \<noteq> [] \<and> list_all isDigit rest
             then Some (take g t, rest) else None))
         (length (takeWhile isWhitespace (drop g t))))
       (length (takeWhile (\<lambda>c. \<not> isLineTerminator c) t))"

text \<open>\<open>parseLineForProduct(line)\<close>: the quantity and the product.\<close>

definition parseLineForProduct :: "string \<Rightarrow> int \<times> string" where
  "parseLineForProduct line =
     (let trimmed = trim line;
          first = (case qtyFirstMatch trimmed of
                     None \<Rightarrow> None
                   | Some (g1, g2) \<Rightarrow>
                       (case parseInt g1 of
                          None \<Rightarrow> None
                        | Some qty \<Rightarrow> if trim g2 \<noteq> [] then Some (qty, trim g2) else None));
          last = (case qtyLastMatch trimmed of
                    None \<Rightarrow> None
                  | Some (g1, g2) \<Rightarrow>
                      (case parseInt g2 of
                         None \<Rightarrow> None
                       | Some qty \<Rightarrow> if trim g1 \<noteq> [] then Some (qty, trim g1) else None))
      in case first of
           Some r \<Rightarrow> r
         | None \<Rightarrow> (case last of Some r \<Rightarrow> r | None \<Rightarrow> (1, trimmed)))"


section \<open>Parsing pipeline (productCacheService, aiService, the auto-add service)\<close>

text \<open>
  The product cache is an object from normalized names to products; its entries are kept
  in enumeration order. \<open>String.prototype.toLowerCase\<close> is a parameter.
\<close>

record product =
  correctName :: string
  product_category :: string
  variants :: "string list option"

type_synonym cache = "(string \<times> product) list"

definition normalizeText :: "(string \<Rightarrow> string) \<Rightarrow> string \<Rightarrow> string" where
  "normalizeText toLowerCase text = trim (toLowerCase text)"

definition findProduct :: "(string \<Rightarrow> string) \<Rightarrow> cache \<Rightarrow> string \<Rightarrow> product option" where
  "findProduct toLowerCase cache productName =
     (let normalized = normalizeText toLowerCase productName
      in case map_of cache normalized of
           Some p \<Rightarrow> Some p
         | None \<Rightarrow>
             map_option snd
               (find (\<lambda>(key, p). case variants p of
                                    None \<Rightarrow> False
                                  | Some vs \<Rightarrow> normalized \<in> set vs) cache))"

text \<open>An entry of the parsed list: \<open>{article, quantity, category, originalInput}\<close>.\<close>

record parsed_item =
  parsed_article :: string
  parsed_quantity :: int
  parsed_category :: string
  originalInput :: string

text \<open>\<open>text.split(sep)\<close> for a one-character separator, and \<open>lines.join(sep)\<close> for a line feed.\<close>

fun split_on :: "char \<Rightarrow> string \<Rightarrow> string list" where
  "split_on sep [] = [[]]"
| "split_on sep (c # cs) =
     (if c = sep then [] # split_on sep cs
      else (case split_on sep cs of
              [] \<Rightarrow> [[c]]
            | l # ls \<Rightarrow> (c # l) # ls))"

fun join_lines :: "string list \<Rightarrow> string" where
  "join_lines [] = []"
| "join_lines [l] = l"
| "join_lines (l # m # ls) = l @ [CHR 0x0A] @ join_lines (m # ls)"

text \<open>\<open>parseWithCache(groceryText)\<close>: the loop over the non-blank lines, then the function.\<close>

fun parse_lines ::
  "(string \<Rightarrow> string) \<Rightarrow> cache \<Rightarrow> string list \<Rightarrow> parsed_item list \<times> string list" where
  "parse_lines toLowerCase cache [] = ([], [])"
| "parse_lines toLowerCase cache (line # lines) =
     (let (qty, prod) = parseLineForProduct line;
          (cachedItems, unparsedLines) = parse_lines toLowerCase cache lines
      in case findProduct toLowerCase cache prod of
           Some cachedProduct \<Rightarrow>
             (\<lparr>parsed_article = correctName cachedProduct, parsed_quantity = qty,
               parsed_category = product_category cachedProduct,
               originalInput = trim line\<rparr> # cachedItems, unparsedLines)
         | None \<Rightarrow> (cachedItems, line # unparsedLines))"

definition parseWithCache ::
  "(string \<Rightarrow> string) \<Rightarrow> cache \<Rightarrow> string \<Rightarrow> parsed_item list \<times> string list" where
  "parseWithCache toLowerCase cache groceryText =
     parse_lines toLowerCase cache
       (filter (\<lambda>line. trim line \<noteq> []) (split_on (CHR 0x0A) groceryText))"

text \<open>
  The reply of the AI collaborator to the prompt built from the text: the call throws,
  the text is not JSON, the JSON is not an array, or it is an array. An element of the
  array is \<open>null\<close>, on which a property access throws, or has the three properties
  \<open>article\<close>, \<open>quantity\<close>, \<open>category\<close>, each a value or undefined. \<open>JObj\<close> stands for any
  object or array, with its conversion to a string.
\<close>

datatype jsval = JUndefined | JNull | JBool bool | JNum int | JStr string | JObj string

fun truthy :: "jsval \<Rightarrow> bool" where
  "truthy JUndefined = False"
| "truthy JNull = False"
| "truthy (JBool b) = b"
| "truthy (JNum n) = (n \<noteq> 0)"
| "truthy (JStr s) = (s \<noteq> [])"
| "truthy (JObj s) = True"

fun parseInt_js :: "jsval \<Rightarrow> int option" where
  "parseInt_js (JNum n) = Some n"
| "parseInt_js (JStr s) = parseInt s"
| "parseInt_js (JObj s) = parseInt s"
| "parseInt_js _ = None"

datatype ai_element = ElemNull | ElemFields jsval jsval jsval

datatype ai_reply = CallFailed | NotJSON | NotArray | ArrayOf "ai_element list"

text \<open>
  \<open>parseGroceryItems\<close>: every failure inside its \<open>try\<close> block, the \<open>TypeError\<close> of
  \<open>.trim()\<close> on a value that is not a string included, is rethrown as the one error
  "Failed to parse grocery items".
\<close>

fun validate_item :: "ai_element \<Rightarrow> error + parsed_item" where
  "validate_item ElemNull = Inl ParsingFailed"
| "validate_item (ElemFields art qty cat) =
     (if \<not> truthy art \<or> \<not> truthy cat then Inl ParsingFailed
      else (case (art, cat) of
              (JStr a, JStr c) \<Rightarrow>
                Inr \<lparr>parsed_article = trim a,
                     parsed_quantity = (case parseInt_js qty of
                                          None \<Rightarrow> 1
                                        | Some n \<Rightarrow> if n = 0 then 1 else n),
                     parsed_category = trim c, originalInput = []\<rparr>
            | _ \<Rightarrow> Inl ParsingFailed))"

fun validate_items :: "ai_element list \<Rightarrow> error + parsed_item list" where
  "validate_items [] = Inr []"
| "validate_items (e # es) =
     (case validate_item e of
        Inl err \<Rightarrow> Inl err
      | Inr item \<Rightarrow>
          (case validate_items es of
             Inl err \<Rightarrow> Inl err
           | Inr items \<Rightarrow> Inr (item # items)))"

definition parseGroceryItems :: "(string \<Rightarrow> ai_reply) \<Rightarrow> string \<Rightarrow> error + parsed_item list" where
  "parseGroceryItems ai groceryText =
     (case ai groceryText of
        CallFailed \<Rightarrow> Inl ParsingFailed
      | NotJSON \<Rightarrow> Inl ParsingFailed
      | NotArray \<Rightarrow> Inl ParsingFailed
      | ArrayOf parsedItems \<Rightarrow> validate_items parsedItems)"

text \<open>\<open>originalInput: unparsedLines[index] || item.article\<close>, by position.\<close>

fun add_originalInput :: "string list \<Rightarrow> parsed_item list \<Rightarrow> parsed_item list" where
  "add_originalInput unparsedLines [] = []"
| "add_originalInput [] (item # items) =
     item\<lparr>originalInput := parsed_article item\<rparr> # add_originalInput [] items"
| "add_originalInput (line # unparsedLines) (item # items) =
     item\<lparr>originalInput := (if line = [] then parsed_article item else line)\<rparr>
       # add_originalInput unparsedLines items"

text \<open>The loop that saves the parsed entries as pending items of the new batch.\<close>

fun add_items :: "nat \<Rightarrow> string \<Rightarrow> store \<Rightarrow> parsed_item list \<Rightarrow> row list \<times> store" where
  "add_items now batchId s [] = ([], s)"
| "add_items now batchId s (newItem # parsedItems) =
     (if parsed_article newItem = [] \<or> parsed_category newItem = []
      then add_items now batchId s parsedItems
      else (let groceryItem = GroceryItem
                  \<lparr>item_id = 0, article = parsed_article newItem,
                   quantity = parsed_quantity newItem, category = parsed_category newItem,
                   status = Pending, batch_id = Some batchId, created_at = 0\<rparr>;
                (s1, saved) = save now s groceryItem;
                (addedItems, s2) = add_items now batchId s1 parsedItems
            in (saved # addedItems, s2)))"

text \<open>
  \<open>parseItemsForConfirmation(groceryText)\<close> of the auto-add service. The batch id is drawn
  at random by the code and is a parameter here, like the clock.
\<close>

definition parseItemsForConfirmation ::
  "(string \<Rightarrow> string) \<Rightarrow> cache \<Rightarrow> (string \<Rightarrow> ai_reply) \<Rightarrow> string \<Rightarrow> nat \<Rightarrow> store \<Rightarrow> string
     \<Rightarrow> (error + string \<times> row list) \<times> store" where
  "parseItemsForConfirmation toLowerCase cache ai batchId now s groceryText =
     (let (cachedItems, unparsedLines) = parseWithCache toLowerCase cache groceryText;
          gemini = (if unparsedLines \<noteq> []
                    then (case parseGroceryItems ai (join_lines unparsedLines) of
                            Inl err \<Rightarrow> Inl err
                          | Inr items \<Rightarrow> Inr (add_originalInput unparsedLines items))
                    else Inr [])
      in case gemini of
           Inl err \<Rightarrow> (Inl err, s)
         | Inr geminiItems \<Rightarrow>
             (let (addedItems, s') = add_items now batchId s (cachedItems @ geminiItems)
              in (Inr (batchId, addedItems), s')))"


section \<open>Shopping navigator: the grouped list\<close>

text \<open>
  \<open>Array.prototype.sort(compareFn)\<close> is a stable sort; for a comparator that is a total
  preorder its result is the one of the stable insertion sort.
\<close>

fun insert_sorted :: "('a \<Rightarrow> 'a \<Rightarrow> int) \<Rightarrow> 'a \<Rightarrow> 'a list \<Rightarrow> 'a list" where
  "insert_sorted compareFn x [] = [x]"
| "insert_sorted compareFn x (y # ys) =
     (if compareFn x y \<le> 0 then x # y # ys else y # insert_sorted compareFn x ys)"

definition array_sort :: "('a \<Rightarrow> 'a \<Rightarrow> int) \<Rightarrow> 'a list \<Rightarrow> 'a list" where
  "array_sort compareFn xs = foldr (insert_sorted compareFn) xs []"








section \<open>Example stores\<close>

definition mk_row :: "nat \<Rightarrow> string \<Rightarrow> int \<Rightarrow> string \<Rightarrow> status \<Rightarrow> string option \<Rightarrow> nat \<Rightarrow> row" where
  "mk_row i a q c st b t =
     \<lparr>item_id = i, article = a, quantity = q, category = c, status = st, batch_id = b,
      created_at = t\<rparr>"

definition shop_store :: store where
  "shop_store =
     [mk_row 1 ''tomates'' 3 ''Fruits et legumes'' Pending (Some ''a1b2c3d4'') 10,
      mk_row 2 ''pain'' 1 ''Boulangerie'' Not_found (Some ''a1b2c3d4'') 10]"

definition stale_store :: store where
  "stale_store = [mk_row 4 ''lait'' 1 ''Produits laitiers'' Confirming (Some ''Y'') 10]"

definition pain_store :: store where
  "pain_store =
     [mk_row 1 ''pain'' 1 ''Boulangerie'' Found (Some ''0a0a0a0a'') 10,
      mk_row 2 ''Pain'' 2 ''Boulangerie'' Confirming (Some ''1b1b1b1b'') 20]"

definition lait_store :: store where
  "lait_store =
     [mk_row 1 ''lait'' 1 ''Produits laitiers'' Confirming (Some ''bbbbbbbb'') 10,
      mk_row 2 ''lait'' 2 ''Produits laitiers'' Selected (Some ''aaaaaaaa'') 20]"

definition batch_store :: store where
  "batch_store =
     [mk_row 1 ''lait'' 1 ''Produits laitiers'' Pending (Some ''c0ffee00'') 10,
      mk_row 2 ''pain'' 2 ''Boulangerie'' Pending (Some ''c0ffee00'') 10,
      mk_row 3 ''pommes'' 6 ''Fruits et legumes'' Confirming (Some ''c0ffee00'') 10,
      mk_row 4 ''riz'' 1 ''Epicerie'' Confirming (Some ''c0ffee00'') 10,
      mk_row 5 ''savon'' 1 ''Hygiene'' Confirming (Some ''c0ffee00'') 10,
      mk_row 6 ''riz'' 1 ''Epicerie'' Confirming (Some ''0badf00d'') 20]"



definition apple_cache :: cache where
  "apple_cache =
     [(''pommes'', \<lparr>correctName = ''pommes'', product_category = ''Fruits et legumes'',
                    variants = Some [''pomme'']\<rparr>)]"

definition dead_ai :: "string \<Rightarrow> ai_reply" where
  "dead_ai groceryText = CallFailed"

definition sloppy_ai :: "string \<Rightarrow> ai_reply" where
  "sloppy_ai groceryText =
     ArrayOf [ElemFields (JStr ''lait'') (JNum 1) (JStr ''Produits laitiers''),
              ElemFields (JStr ''pain'') (JNum 1) JUndefined]"

definition good_ai :: "string \<Rightarrow> ai_reply" where
  "good_ai groceryText =
     ArrayOf [ElemFields (JStr ''lait'') (JNum 1) (JStr ''Produits laitiers''),
              ElemFields (JStr ''pain'') (JStr ''2'') (JStr ''Boulangerie'')]"

definition list_text :: string where
  "list_text = ''2 pomme'' @ [CHR 0x0A] @ ''lait'' @ [CHR 0x0A] @ [CHR 0x0A] @ ''2 pain''"

section \<open>Properties\<close>

lemma status_GroceryItem [simp]: "status (GroceryItem r) = status r"
  by (simp add: GroceryItem_def)

lemma item_id_GroceryItem [simp]: "item_id (GroceryItem r) = item_id r"
  by (simp add: GroceryItem_def)

lemma batch_id_GroceryItem [simp]: "batch_id (GroceryItem r) = batch_id r"
  by (simp add: GroceryItem_def)

lemma article_GroceryItem [simp]: "article (GroceryItem r) = article r"
  by (simp add: GroceryItem_def)

lemma category_GroceryItem [simp]: "category (GroceryItem r) = category r"
  by (simp add: GroceryItem_def)

lemma find_map_status:
  "find (\<lambda>r. item_id r = i) (map (\<lambda>r. if item_id r = i then r\<lparr>status := st\<rparr> else r) s) =
   map_option (\<lambda>r. r\<lparr>status := st\<rparr>) (find (\<lambda>r. item_id r = i) s)"
  by (induction s) auto

lemma findById_updateStatus:
  "findById s i = Some it \<Longrightarrow>
   \<exists>it'. findById (snd (updateStatus s i st)) i = Some it' \<and> status it' = st"
  by (auto simp: findById_def updateStatus_def find_map_status)

lemma tapItem_status:
  assumes "findById s i = Some it"
  shows "\<exists>s' it'. tapItem s i = Some (nextStatus (status it), s') \<and>
           findById s' i = Some it' \<and> status it' = nextStatus (status it)"
  using assms findById_updateStatus [OF assms, of "nextStatus (status it)"]
  by (auto simp: tapItem_def updateItemStatus_def Let_def)

text \<open>
  C7: tapping an item advances it along pending -> selected -> found, and an item in
  not_found goes back to pending. For an item that is pending, the first tap returns
  selected and stores it, the second tap returns found and stores it; for an item that is
  not_found, one tap returns pending and stores it.
\<close>

theorem C7_status_cycle:
  assumes "findById s i = Some it"
  shows "(status it = Pending \<longrightarrow>
           (\<exists>s1 it1 s2 it2.
              tapItem s i = Some (Selected, s1) \<and> findById s1 i = Some it1 \<and>
              status it1 = Selected \<and>
              tapItem s1 i = Some (Found, s2) \<and> findById s2 i = Some it2 \<and>
              status it2 = Found)) \<and>
         (status it = Not_found \<longrightarrow>
           (\<exists>s1 it1. tapItem s i = Some (Pending, s1) \<and> findById s1 i = Some it1 \<and>
              status it1 = Pending))"
proof (intro conjI impI)
  assume p: "status it = Pending"
  from tapItem_status [OF assms] p obtain s1 it1 where
    1: "tapItem s i = Some (Selected, s1)" "findById s1 i = Some it1" "status it1 = Selected"
    by auto
  from tapItem_status [OF 1(2)] 1(3) obtain s2 it2 where
    2: "tapItem s1 i = Some (Found, s2)" "findById s2 i = Some it2" "status it2 = Found"
    by auto
  from 1 2 show "\<exists>s1 it1 s2 it2.
            tapItem s i = Some (Selected, s1) \<and> findById s1 i = Some it1 \<and>
            status it1 = Selected \<and>
            tapItem s1 i = Some (Found, s2) \<and> findById s2 i = Some it2 \<and>
            status it2 = Found"
    by blast
next
  assume "status it = Not_found"
  then show "\<exists>s1 it1. tapItem s i = Some (Pending, s1) \<and> findById s1 i = Some it1 \<and>
              status it1 = Pending"
    using tapItem_status [OF assms] by auto
qed

theorem C7_status_cycle_witness:
  "(\<exists>s1 it1 s2 it2.
      tapItem shop_store 1 = Some (Selected, s1) \<and> findById s1 1 = Some it1 \<and>
      status it1 = Selected \<and>
      tapItem s1 1 = Some (Found, s2) \<and> findById s2 1 = Some it2 \<and> status it2 = Found) \<and>
   (\<exists>s1 it1. tapItem shop_store 2 = Some (Pending, s1) \<and> findById s1 2 = Some it1 \<and>
      status it1 = Pending)"
proof -
  have a: "findById shop_store 1 =
             Some (mk_row 1 ''tomates'' 3 ''Fruits et legumes'' Pending (Some ''a1b2c3d4'') 10)"
    by (simp add: findById_def shop_store_def mk_row_def GroceryItem_def)
  have b: "findById shop_store 2 =
             Some (mk_row 2 ''pain'' 1 ''Boulangerie'' Not_found (Some ''a1b2c3d4'') 10)"
    by (simp add: findById_def shop_store_def mk_row_def GroceryItem_def)
  show ?thesis
    using C7_status_cycle [OF a] C7_status_cycle [OF b] by (simp add: mk_row_def)
qed

text \<open>
  C5: a confirmation whose item id is not in the store, or whose item belongs to another
  batch than the one named in the call, is answered with the NotFound notice and leaves
  the store as it was. This holds for the handler of either version.
\<close>

theorem C5_stale_batch_rejected:
  assumes "findById s itemId = None \<or>
           (\<exists>t. findById s itemId = Some t \<and> batch_id t \<noteq> Some batchId)"
  shows "handleConfirmItem now s batchId itemId = (Inl NotFound, s) \<and>
         handleConfirmItem_autoadd s batchId itemId = (Inl NotFound, s)"
  using assms
  by (auto simp: handleConfirmItem_def handleConfirmItem_autoadd_def)

theorem C5_stale_batch_rejected_witness:
  "handleConfirmItem 11 stale_store ''X'' 4 = (Inl NotFound, stale_store) \<and>
   handleConfirmItem_autoadd stale_store ''X'' 4 = (Inl NotFound, stale_store) \<and>
   handleConfirmItem 11 stale_store ''Y'' 5 = (Inl NotFound, stale_store) \<and>
   handleConfirmItem_autoadd stale_store ''Y'' 5 = (Inl NotFound, stale_store)"
proof -
  have a: "findById stale_store 5 = None \<or>
           (\<exists>t. findById stale_store 5 = Some t \<and> batch_id t \<noteq> Some ''Y'')"
    by (simp add: findById_def stale_store_def mk_row_def)
  have b: "findById stale_store 4 = None \<or>
           (\<exists>t. findById stale_store 4 = Some t \<and> batch_id t \<noteq> Some ''X'')"
    by (simp add: findById_def stale_store_def mk_row_def)
  show ?thesis
    using C5_stale_batch_rejected [OF a, of 11] C5_stale_batch_rejected [OF b, of 11] by simp
qed

lemma find_Some_set: "find P s = Some r \<Longrightarrow> r \<in> set s \<and> P r"
  by (induction s) (auto split: if_splits)

lemma findById_row:
  "findById s i = Some t \<Longrightarrow> \<exists>r \<in> set s. item_id r = i \<and> t = GroceryItem r"
  by (auto simp: findById_def dest: find_Some_set)

lemma findByArticle_row:
  "findByArticle s a = Some e \<Longrightarrow>
   \<exists>r \<in> set s. LOWER (article r) = LOWER a \<and> e = GroceryItem r"
  by (auto simp: findByArticle_def dest: find_Some_set)

lemma wf_store_same_id:
  "wf_store s \<Longrightarrow> r \<in> set s \<Longrightarrow> r' \<in> set s \<Longrightarrow> item_id r = item_id r' \<Longrightarrow> r = r'"
  by (auto simp: wf_store_def dest: inj_on_eq_iff [OF iffD1 [OF distinct_map, THEN conjunct2]])

lemma wf_store_nonzero: "wf_store s \<Longrightarrow> r \<in> set s \<Longrightarrow> item_id r \<noteq> 0"
  by (auto simp: wf_store_def)

lemma find_map_upd:
  assumes "\<And>r. item_id (f r) = item_id r"
  shows "find (\<lambda>r. item_id r = i) (map (\<lambda>r. if item_id r = j then f r else r) s) =
         map_option (\<lambda>r. if item_id r = j then f r else r) (find (\<lambda>r. item_id r = i) s)"
  using assms by (induction s) auto

lemma find_filter_neq:
  "i \<noteq> j \<Longrightarrow> find (\<lambda>r. item_id r = i) (filter (\<lambda>r. item_id r \<noteq> j) s) =
     find (\<lambda>r. item_id r = i) s"
  by (induction s) auto

text \<open>The merge branch of confirmItemFromBatch, on a well-formed store.\<close>

lemma confirm_merge:
  assumes wf: "wf_store s"
    and t: "findById s itemId = Some tempItem" and c: "status tempItem = Confirming"
    and e: "findByArticle s (article tempItem) = Some existingItem"
    and b: "batch_id existingItem \<noteq> batch_id tempItem"
  shows "confirmItemFromBatch now s itemId =
           (Inr (existingItem\<lparr>quantity := quantity existingItem + quantity tempItem,
                              category := category tempItem,
                              batch_id := batch_id tempItem,
                              status := (if status existingItem = Not_found \<or>
                                            status existingItem = Found
                                         then Pending else status existingItem)\<rparr>),
            filter (\<lambda>r. item_id r \<noteq> itemId)
              (map (\<lambda>r. if item_id r = item_id existingItem
                         then r\<lparr>article := article existingItem,
                                quantity := quantity existingItem + quantity tempItem,
                                category := category tempItem,
                                status := (if status existingItem = Not_found \<or>
                                              status existingItem = Found
                                           then Pending else status existingItem),
                                batch_id := batch_id tempItem\<rparr>
                         else r) s))"
    and "item_id existingItem \<noteq> itemId" and "item_id existingItem \<noteq> 0" and "itemId \<noteq> 0"
proof -
  from findById_row [OF t] obtain r where r: "r \<in> set s" "item_id r = itemId" "tempItem = GroceryItem r"
    by blast
  from findByArticle_row [OF e] obtain r' where r': "r' \<in> set s" "existingItem = GroceryItem r'"
    by blast
  show ne: "item_id existingItem \<noteq> itemId"
  proof
    assume "item_id existingItem = itemId"
    then have "item_id r = item_id r'" using r r' by simp
    from wf_store_same_id [OF wf r(1) r'(1) this] have "r = r'" .
    then show False using r(3) r'(2) b by simp
  qed
  show e0: "item_id existingItem \<noteq> 0" using wf_store_nonzero [OF wf r'(1)] r' by simp
  show i0: "itemId \<noteq> 0" using wf_store_nonzero [OF wf r(1)] r by simp
  have it: "item_id tempItem = itemId" using r by simp
  show "confirmItemFromBatch now s itemId =
           (Inr (existingItem\<lparr>quantity := quantity existingItem + quantity tempItem,
                              category := category tempItem,
                              batch_id := batch_id tempItem,
                              status := (if status existingItem = Not_found \<or>
                                            status existingItem = Found
                                         then Pending else status existingItem)\<rparr>),
            filter (\<lambda>r. item_id r \<noteq> itemId)
              (map (\<lambda>r. if item_id r = item_id existingItem
                         then r\<lparr>article := article existingItem,
                                quantity := quantity existingItem + quantity tempItem,
                                category := category tempItem,
                                status := (if status existingItem = Not_found \<or>
                                              status existingItem = Found
                                           then Pending else status existingItem),
                                batch_id := batch_id tempItem\<rparr>
                         else r) s))"
    using t c e b e0 i0 it
    by (simp add: confirmItemFromBatch_def save_def delete_item_def Let_def cong: if_cong)
qed

lemma findById_after_commit:
  assumes "itemId \<noteq> 0" and "findById s itemId = Some t"
  shows "findById (fst (save now s (t\<lparr>status := Pending\<rparr>))) itemId = Some (t\<lparr>status := Pending\<rparr>)"
proof -
  from assms(2) obtain r where r: "find (\<lambda>r. item_id r = itemId) s = Some r" "t = GroceryItem r"
    by (auto simp: findById_def)
  then have i: "item_id r = itemId" by (auto dest: find_Some_set)
  let ?f = "\<lambda>x. x\<lparr>article := article t, quantity := quantity t, category := category t,
                   status := Pending, batch_id := batch_id t\<rparr>"
  have "find (\<lambda>r. item_id r = itemId) (map (\<lambda>x. if item_id x = itemId then ?f x else x) s) =
          map_option (\<lambda>x. if item_id x = itemId then ?f x else x) (find (\<lambda>r. item_id r = itemId) s)"
    by (rule find_map_upd) simp
  then have "findById (fst (save now s (t\<lparr>status := Pending\<rparr>))) itemId = Some (GroceryItem (?f r))"
    using assms(1) r i by (simp add: findById_def save_def cong: if_cong)
  moreover have "GroceryItem (?f r) = t\<lparr>status := Pending\<rparr>"
    unfolding r(2) by (simp add: GroceryItem_def)
  ultimately show ?thesis by simp
qed

lemma confirm_twice:
  assumes wf: "wf_store s"
    and c: "handleConfirmItem now s batchId itemId = (Inr item, s1)"
    and i: "item_id item = itemId"
  shows "status item = Pending \<and> handleConfirmItem now s1 batchId itemId = (Inr item, s1)"
proof -
  from c obtain t where t: "findById s itemId = Some t" "batch_id t = Some batchId"
    and cc: "confirmItemFromBatch now s itemId = (Inr item, s1)"
    by (auto simp: handleConfirmItem_def split: option.splits if_splits)
  from findById_row [OF t(1)] obtain r where r: "r \<in> set s" "item_id r = itemId" "t = GroceryItem r"
    by blast
  have i0: "itemId \<noteq> 0" using wf_store_nonzero [OF wf r(1)] r(2) by simp
  have it: "item_id t = itemId" using r by simp
  consider (p) "status t = Pending" | (cf) "status t = Confirming"
    | (o) "status t \<noteq> Pending" "status t \<noteq> Confirming" by blast
  then show ?thesis
  proof cases
    case p
    with cc t have "item = t" "s1 = s" by (auto simp: confirmItemFromBatch_def)
    with p c show ?thesis by simp
  next
    case o
    with cc t show ?thesis by (auto simp: confirmItemFromBatch_def)
  next
    case cf
    have inplace: "item = t\<lparr>status := Pending\<rparr> \<and> s1 = fst (save now s (t\<lparr>status := Pending\<rparr>))"
    proof (cases "findByArticle s (article t)")
      case None
      with cc t cf i0 it show ?thesis
        by (auto simp: confirmItemFromBatch_def save_def)
    next
      case (Some e)
      show ?thesis
      proof (cases "batch_id e = batch_id t")
        case True
        with cc t cf i0 it Some show ?thesis
          by (auto simp: confirmItemFromBatch_def save_def)
      next
        case False
        from confirm_merge(1) [OF wf t(1) cf Some False, where now = now]
          confirm_merge(2) [OF wf t(1) cf Some False] cc i
        show ?thesis by simp
      qed
    qed
    then have st: "status item = Pending" and bi: "batch_id item = Some batchId"
      using t(2) by simp_all
    from inplace findById_after_commit [OF i0 t(1), of now]
    have f: "findById s1 itemId = Some item" by simp
    from f st bi show ?thesis
      by (simp add: handleConfirmItem_def confirmItemFromBatch_def)
  qed
qed

text \<open>
  C3: confirming an item that is already pending returns that item as it is read from the
  store and leaves the store untouched, through the service and through the handler. And
  on a store with unique non-zero ids, whenever a confirmation returns the item whose id
  was given, that item is pending and a second confirmation of the same id returns the
  same item and leaves the store as the first one left it.
\<close>

theorem C3_confirm_idempotent:
  "(\<forall>item. findById s itemId = Some item \<and> status item = Pending \<longrightarrow>
      confirmItemFromBatch now s itemId = (Inr item, s) \<and>
      (batch_id item = Some batchId \<longrightarrow>
         handleConfirmItem now s batchId itemId = (Inr item, s))) \<and>
   (\<forall>item s1. wf_store s \<and> handleConfirmItem now s batchId itemId = (Inr item, s1) \<and>
      item_id item = itemId \<longrightarrow>
      status item = Pending \<and> handleConfirmItem now s1 batchId itemId = (Inr item, s1))"
proof (intro conjI allI impI)
  fix item
  assume "findById s itemId = Some item \<and> status item = Pending"
  then show "confirmItemFromBatch now s itemId = (Inr item, s)"
    by (simp add: confirmItemFromBatch_def)
next
  fix item
  assume "findById s itemId = Some item \<and> status item = Pending"
    and "batch_id item = Some batchId"
  then show "handleConfirmItem now s batchId itemId = (Inr item, s)"
    by (simp add: confirmItemFromBatch_def handleConfirmItem_def)
next
  fix item s1
  assume a: "wf_store s \<and> handleConfirmItem now s batchId itemId = (Inr item, s1) \<and>
      item_id item = itemId"
  then show "status item = Pending"
    using confirm_twice [of s now batchId itemId item s1] by blast
  from a show "handleConfirmItem now s1 batchId itemId = (Inr item, s1)"
    using confirm_twice [of s now batchId itemId item s1] by blast
qed

theorem C3_confirm_idempotent_witness:
  "confirmItemFromBatch 30 batch_store 1 =
     (Inr (mk_row 1 ''lait'' 1 ''Produits laitiers'' Pending (Some ''c0ffee00'') 10),
      batch_store) \<and>
   handleConfirmItem 30 batch_store ''c0ffee00'' 1 =
     (Inr (mk_row 1 ''lait'' 1 ''Produits laitiers'' Pending (Some ''c0ffee00'') 10),
      batch_store) \<and>
   fst (handleConfirmItem 30 batch_store ''c0ffee00'' 3) =
     Inr (mk_row 3 ''pommes'' 6 ''Fruits et legumes'' Pending (Some ''c0ffee00'') 10) \<and>
   handleConfirmItem 30 (snd (handleConfirmItem 30 batch_store ''c0ffee00'' 3)) ''c0ffee00'' 3 =
     handleConfirmItem 30 batch_store ''c0ffee00'' 3"
proof -
  have a: "findById batch_store 1 =
             Some (mk_row 1 ''lait'' 1 ''Produits laitiers'' Pending (Some ''c0ffee00'') 10) \<and>
           status (mk_row 1 ''lait'' 1 ''Produits laitiers'' Pending (Some ''c0ffee00'') 10)
             = Pending"
    by (simp add: findById_def batch_store_def mk_row_def GroceryItem_def)
  have b: "batch_id (mk_row 1 ''lait'' 1 ''Produits laitiers'' Pending (Some ''c0ffee00'') 10)
             = Some ''c0ffee00''"
    by (simp add: mk_row_def)
  have wf: "wf_store batch_store"
    by (simp add: wf_store_def batch_store_def mk_row_def)
  obtain r s1 where f: "handleConfirmItem 30 batch_store ''c0ffee00'' 3 = (r, s1)"
    by (cases "handleConfirmItem 30 batch_store ''c0ffee00'' 3")
  have "fst (handleConfirmItem 30 batch_store ''c0ffee00'' 3) =
          Inr (mk_row 3 ''pommes'' 6 ''Fruits et legumes'' Pending (Some ''c0ffee00'') 10)"
    by code_simp
  with f have r: "r = Inr (mk_row 3 ''pommes'' 6 ''Fruits et legumes'' Pending (Some ''c0ffee00'') 10)"
    by simp
  have c: "wf_store batch_store \<and>
           handleConfirmItem 30 batch_store ''c0ffee00'' 3 =
             (Inr (mk_row 3 ''pommes'' 6 ''Fruits et legumes'' Pending (Some ''c0ffee00'') 10), s1) \<and>
           item_id (mk_row 3 ''pommes'' 6 ''Fruits et legumes'' Pending (Some ''c0ffee00'') 10) = 3"
    using wf f r by (simp add: mk_row_def)
  note th = C3_confirm_idempotent [of batch_store 1 30 "''c0ffee00''"]
  note th3 = C3_confirm_idempotent [of batch_store 3 30 "''c0ffee00''"]
  from th a b have 1: "confirmItemFromBatch 30 batch_store 1 =
     (Inr (mk_row 1 ''lait'' 1 ''Produits laitiers'' Pending (Some ''c0ffee00'') 10),
      batch_store) \<and>
   handleConfirmItem 30 batch_store ''c0ffee00'' 1 =
     (Inr (mk_row 1 ''lait'' 1 ''Produits laitiers'' Pending (Some ''c0ffee00'') 10),
      batch_store)"
    by blast
  from th3 c have 2: "handleConfirmItem 30 s1 ''c0ffee00'' 3 =
     (Inr (mk_row 3 ''pommes'' 6 ''Fruits et legumes'' Pending (Some ''c0ffee00'') 10), s1)"
    by blast
  from 1 2 f r show ?thesis by simp
qed

text \<open>
  C2: when a confirming item is merged into an existing item of another batch whose status
  is found or not_found, the item returned and the row stored for the existing item have
  status pending.
\<close>

theorem C2_found_reset_on_merge:
  assumes "wf_store s"
    and "findById s itemId = Some tempItem" and "status tempItem = Confirming"
    and "findByArticle s (article tempItem) = Some existingItem"
    and "batch_id existingItem \<noteq> batch_id tempItem"
    and "status existingItem = Found \<or> status existingItem = Not_found"
  shows "\<exists>e s' e'. confirmItemFromBatch now s itemId = (Inr e, s') \<and>
           item_id e = item_id existingItem \<and> status e = Pending \<and>
           findById s' (item_id existingItem) = Some e' \<and> status e' = Pending"
proof -
  note m = confirm_merge [OF assms(1-5)]
  from findByArticle_row [OF assms(4)] obtain r' where
    r': "r' \<in> set s" "existingItem = GroceryItem r'" by blast
  then have "find (\<lambda>r. item_id r = item_id existingItem) s \<noteq> None"
    by (auto simp: find_None_iff)
  then obtain x where x: "find (\<lambda>r. item_id r = item_id existingItem) s = Some x" by auto
  then have xi: "item_id x = item_id existingItem" by (auto dest: find_Some_set)
  have "\<exists>e'. findById (snd (confirmItemFromBatch now s itemId)) (item_id existingItem) = Some e'
          \<and> status e' = Pending"
    using m(2) assms(6) x xi
    by (auto simp: m(1) findById_def find_filter_neq find_map_upd)
  with m(1) assms(6) show ?thesis by auto
qed

lemma LOWER_pain: "LOWER ''Pain'' = ''pain''" "LOWER ''pain'' = ''pain''"
  by code_simp+

theorem C2_found_reset_on_merge_witness:
  "\<exists>e s' e'. confirmItemFromBatch 30 pain_store 2 = (Inr e, s') \<and>
           item_id e = 1 \<and> status e = Pending \<and>
           findById s' 1 = Some e' \<and> status e' = Pending"
proof -
  have 1: "wf_store pain_store" by (simp add: wf_store_def pain_store_def mk_row_def)
  have 2: "findById pain_store 2 =
             Some (mk_row 2 ''Pain'' 2 ''Boulangerie'' Confirming (Some ''1b1b1b1b'') 20)"
    by (simp add: findById_def pain_store_def mk_row_def GroceryItem_def)
  have 3: "status (mk_row 2 ''Pain'' 2 ''Boulangerie'' Confirming (Some ''1b1b1b1b'') 20) = Confirming"
    by (simp add: mk_row_def)
  have 4: "findByArticle pain_store
             (article (mk_row 2 ''Pain'' 2 ''Boulangerie'' Confirming (Some ''1b1b1b1b'') 20)) =
           Some (mk_row 1 ''pain'' 1 ''Boulangerie'' Found (Some ''0a0a0a0a'') 10)"
    by (simp add: findByArticle_def pain_store_def mk_row_def GroceryItem_def LOWER_pain)
  have 5: "batch_id (mk_row 1 ''pain'' 1 ''Boulangerie'' Found (Some ''0a0a0a0a'') 10) \<noteq>
           batch_id (mk_row 2 ''Pain'' 2 ''Boulangerie'' Confirming (Some ''1b1b1b1b'') 20)"
    by (simp add: mk_row_def)
  have 6: "status (mk_row 1 ''pain'' 1 ''Boulangerie'' Found (Some ''0a0a0a0a'') 10) = Found \<or>
           status (mk_row 1 ''pain'' 1 ''Boulangerie'' Found (Some ''0a0a0a0a'') 10) = Not_found"
    by (simp add: mk_row_def)
  show ?thesis
    using C2_found_reset_on_merge [OF 1 2 3 4 5 6, of 30] by (simp add: mk_row_def)
qed

text \<open>
  C1: the name lookup returns the first row with the name, which can be the confirming
  item itself. Here row 1 is the confirming item of batch bbbbbbbb and row 2 is an item of
  batch aaaaaaaa with the same name: the confirmation commits row 1 in place, row 2 keeps
  its quantity, and two rows named lait remain.
\<close>

theorem C1_shadowed_match_not_merged:
  "handleConfirmItem 30 lait_store ''bbbbbbbb'' 1 =
     (Inr (mk_row 1 ''lait'' 1 ''Produits laitiers'' Pending (Some ''bbbbbbbb'') 10),
      [mk_row 1 ''lait'' 1 ''Produits laitiers'' Pending (Some ''bbbbbbbb'') 10,
       mk_row 2 ''lait'' 2 ''Produits laitiers'' Selected (Some ''aaaaaaaa'') 20])"
  by (simp add: handleConfirmItem_def confirmItemFromBatch_def findById_def findByArticle_def
      lait_store_def mk_row_def GroceryItem_def save_def LOWER_def)

lemma delete_each_store:
  "0 \<notin> item_id ` set L \<Longrightarrow>
   snd (delete_each s L n) = filter (\<lambda>r. item_id r \<notin> item_id ` set L) s"
proof (induction L arbitrary: s n)
  case Nil
  then show ?case by simp
next
  case (Cons a L)
  then show ?case
    by (auto simp: delete_item_def intro!: filter_cong)
qed

lemma delete_each_count:
  "0 \<notin> item_id ` set L \<Longrightarrow> distinct (map item_id L) \<Longrightarrow>
   item_id ` set L \<subseteq> item_id ` set s \<Longrightarrow>
   fst (delete_each s L n) = n + length L"
proof (induction L arbitrary: s n)
  case Nil
  then show ?case by simp
next
  case (Cons a L)
  have sub: "item_id ` set L \<subseteq> item_id ` set (filter (\<lambda>r. item_id r \<noteq> item_id a) s)"
  proof
    fix i assume i: "i \<in> item_id ` set L"
    then have "i \<noteq> item_id a" using Cons.prems(2) by (auto simp: image_iff)
    moreover from i Cons.prems(3) obtain y where "y \<in> set s" "item_id y = i" by auto
    ultimately show "i \<in> item_id ` set (filter (\<lambda>r. item_id r \<noteq> item_id a) s)"
      by (auto simp: image_iff)
  qed
  have ex: "\<exists>r\<in>set s. item_id r = item_id a" using Cons.prems by auto
  have a0: "item_id a \<noteq> 0" using Cons.prems by auto
  have "fst (delete_each (filter (\<lambda>r. item_id r \<noteq> item_id a) s) L (Suc n)) = Suc n + length L"
    using Cons.prems by (intro Cons.IH [OF _ _ sub]) auto
  then show ?case using ex a0 by (simp add: delete_item_def)
qed

lemma findByBatchIdAndStatus_ids:
  "map item_id (findByBatchIdAndStatus s b st) =
   map item_id (sort_key created_at (filter (\<lambda>r. batch_id r = Some b \<and> status r = st) s))"
  by (simp add: findByBatchIdAndStatus_def comp_def)

text \<open>
  C4: in the explicit-confirmation service, cancelBatch deletes exactly the rows of the
  batch that are still confirming and returns their number; every other row, in
  particular every pending row of the same batch, stays in the store unchanged.
\<close>

theorem C4_cancelBatch_scope:
  assumes "wf_store s"
  shows "cancelBatch s batchId =
           (length (filter (\<lambda>r. batch_id r = Some batchId \<and> status r = Confirming) s),
            filter (\<lambda>r. \<not> (batch_id r = Some batchId \<and> status r = Confirming)) s) \<and>
         (\<forall>r \<in> set s. batch_id r = Some batchId \<and> status r = Pending \<longrightarrow>
            r \<in> set (snd (cancelBatch s batchId)))"
proof -
  let ?P = "\<lambda>r. batch_id r = Some batchId \<and> status r = Confirming"
  let ?L = "findByBatchIdAndStatus s batchId Confirming"
  have ids: "item_id ` set ?L = item_id ` set (filter ?P s)"
    by (simp add: findByBatchIdAndStatus_def image_image)
  have d: "distinct (map item_id s)" and z: "0 \<notin> item_id ` set s"
    using assms by (auto simp: wf_store_def)
  have inj: "inj_on item_id (set s)" using d by (simp add: distinct_map)
  have z': "0 \<notin> item_id ` set ?L" using z ids by auto
  have dL: "distinct (map item_id ?L)"
    unfolding findByBatchIdAndStatus_ids using d
    by (auto simp: distinct_map intro: inj_on_subset [OF inj])
  have sub: "item_id ` set ?L \<subseteq> item_id ` set s" using ids by auto
  have len: "length ?L = length (filter ?P s)"
    by (simp add: findByBatchIdAndStatus_def)
  have "filter (\<lambda>r. item_id r \<notin> item_id ` set ?L) s = filter (\<lambda>r. \<not> ?P r) s"
  proof (rule filter_cong [OF refl])
    fix r assume r: "r \<in> set s"
    show "(item_id r \<notin> item_id ` set ?L) = (\<not> ?P r)"
      unfolding ids using r inj by (auto dest: inj_onD)
  qed
  then have st: "snd (cancelBatch s batchId) = filter (\<lambda>r. \<not> ?P r) s"
    using delete_each_store [OF z'] by (simp add: cancelBatch_def)
  have ct: "fst (cancelBatch s batchId) = length (filter ?P s)"
    using delete_each_count [OF z' dL sub, of 0] len by (simp add: cancelBatch_def)
  from st ct show ?thesis by (auto simp: prod_eq_iff)
qed

theorem C4_cancelBatch_scope_witness:
  "wf_store batch_store \<and>
   cancelBatch batch_store ''c0ffee00'' =
     (3, [mk_row 1 ''lait'' 1 ''Produits laitiers'' Pending (Some ''c0ffee00'') 10,
          mk_row 2 ''pain'' 2 ''Boulangerie'' Pending (Some ''c0ffee00'') 10,
          mk_row 6 ''riz'' 1 ''Epicerie'' Confirming (Some ''0badf00d'') 20])"
proof -
  have wf: "wf_store batch_store"
    by (simp add: wf_store_def batch_store_def mk_row_def)
  show ?thesis
    using C4_cancelBatch_scope [OF wf, of "''c0ffee00''"] wf
    by (simp add: batch_store_def mk_row_def)
qed

text \<open>
  C10, as the code has it: editItem stores the quantity it is given, whatever it is; the
  minimum of 1 is kept by the edit keyboard, whose minus button carries
  max(1, quantity - 1) and whose plus button carries quantity + 1, which is at least 1
  when the quantity is.
\<close>

theorem C10_keyboard_clamps_editItem_does_not:
  assumes "findById s itemId = Some item" and "itemId \<noteq> 0"
  shows "(\<exists>item' s'. editItem now s itemId newCategory newQuantity newNote
                        = (Inr (item', newNote), s') \<and>
            quantity item' = newQuantity \<and>
            (\<forall>r \<in> set s'. item_id r = itemId \<longrightarrow> quantity r = newQuantity)) \<and>
         1 \<le> createEditKeyboard_minus (quantity item) \<and>
         (1 \<le> quantity item \<longrightarrow> 1 \<le> createEditKeyboard_plus (quantity item))"
proof -
  have i: "item_id item = itemId" using assms(1) by (auto dest: findById_row)
  have "\<exists>item' s'. editItem now s itemId newCategory newQuantity newNote
                        = (Inr (item', newNote), s') \<and>
            quantity item' = newQuantity \<and>
            (\<forall>r \<in> set s'. item_id r = itemId \<longrightarrow> quantity r = newQuantity)"
    using assms i by (auto simp: editItem_def save_def)
  then show ?thesis
    by (simp add: createEditKeyboard_minus_def createEditKeyboard_plus_def)
qed

theorem C10_keyboard_clamps_editItem_does_not_witness:
  "(\<exists>item' s'. editItem 30 shop_store 1 ''Boissons'' 2 ''bio''
                        = (Inr (item', ''bio''), s') \<and>
            quantity item' = 2 \<and>
            (\<forall>r \<in> set s'. item_id r = 1 \<longrightarrow> quantity r = 2)) \<and>
   1 \<le> createEditKeyboard_minus 3 \<and> 1 \<le> createEditKeyboard_plus 3"
proof -
  have a: "findById shop_store 1 =
             Some (mk_row 1 ''tomates'' 3 ''Fruits et legumes'' Pending (Some ''a1b2c3d4'') 10)"
    by (simp add: findById_def shop_store_def mk_row_def GroceryItem_def)
  have b: "(1::nat) \<noteq> 0" by simp
  have c: "quantity (mk_row 1 ''tomates'' 3 ''Fruits et legumes'' Pending (Some ''a1b2c3d4'') 10) = 3"
    by (simp add: mk_row_def)
  show ?thesis
    using C10_keyboard_clamps_editItem_does_not [OF a b, of 30 "''Boissons''" 2 "''bio''"]
    unfolding c by simp
qed

text \<open>An edit with quantity -5 stores -5.\<close>

theorem C10_editItem_stores_below_one:
  "snd (editItem 30 shop_store 1 ''Fruits et legumes'' (- 5) '''') =
     [mk_row 1 ''tomates'' (- 5) ''Fruits et legumes'' Pending (Some ''a1b2c3d4'') 10,
      mk_row 2 ''pain'' 1 ''Boulangerie'' Not_found (Some ''a1b2c3d4'') 10] \<and>
   \<not> 1 \<le> quantity (hd (snd (editItem 30 shop_store 1 ''Fruits et legumes'' (- 5) '''')))"
  by (simp add: editItem_def findById_def shop_store_def mk_row_def GroceryItem_def save_def)




lemma longest_first_zero: "longest_first f 0 = None"
  by simp


lemma digit_not_lt: "isDigit c \<Longrightarrow> \<not> isLineTerminator c"
  by (auto simp: isLineTerminator_def isDigit_def)


















lemma set_insert_sorted [simp]: "set (insert_sorted c x ys) = insert x (set ys)"
  by (induction ys) auto

lemma set_array_sort [simp]: "set (array_sort c xs) = set xs"
  by (induction xs) (auto simp: array_sort_def)
























lemma parseWithCache_example: "parseWithCache LOWER apple_cache list_text =
   ([\<lparr>parsed_article = ''pommes'', parsed_quantity = 2, parsed_category = ''Fruits et legumes'',
      originalInput = ''2 pomme''\<rparr>], [''lait'', ''2 pain''])"
  by code_simp

lemma parseItemsForConfirmation_example: "parseItemsForConfirmation LOWER apple_cache good_ai ''deadbeef'' 30 shop_store list_text =
   (Inr (''deadbeef'',
     [mk_row 3 ''pommes'' 2 ''Fruits et legumes'' Pending (Some ''deadbeef'') 0,
      mk_row 4 ''lait'' 1 ''Produits laitiers'' Pending (Some ''deadbeef'') 0,
      mk_row 5 ''pain'' 2 ''Boulangerie'' Pending (Some ''deadbeef'') 0]),
    shop_store @ 
     [mk_row 3 ''pommes'' 2 ''Fruits et legumes'' Pending (Some ''deadbeef'') 30,
      mk_row 4 ''lait'' 1 ''Produits laitiers'' Pending (Some ''deadbeef'') 30,
      mk_row 5 ''pain'' 2 ''Boulangerie'' Pending (Some ''deadbeef'') 30])"
  by code_simp

lemma validate_items_missing:
  assumes "e \<in> set es"
    and "case e of ElemNull \<Rightarrow> True | ElemFields art qty cat \<Rightarrow> \<not> truthy art \<or> \<not> truthy cat"
  shows "validate_items es = Inl ParsingFailed"
  using assms
proof (induction es)
  case Nil
  then show ?case by simp
next
  case (Cons x es)
  have err: "validate_item y = Inl err \<Longrightarrow> err = ParsingFailed" for y err
    by (cases y) (auto split: if_splits jsval.splits)
  show ?case
  proof (cases "validate_item x")
    case (Inl err)
    with err [OF Inl] show ?thesis by simp
  next
    case (Inr item)
    then have "e \<noteq> x" using Cons.prems(2) by (cases x) (auto split: if_splits)
    with Cons have "validate_items es = Inl ParsingFailed" by auto
    with Inr show ?thesis by simp
  qed
qed

lemma parseGroceryItems_error:
  "parseGroceryItems ai txt = Inl err \<Longrightarrow> err = ParsingFailed"
proof -
  have item: "validate_item y = Inl e \<Longrightarrow> e = ParsingFailed" for y e
    by (cases y) (auto split: if_splits jsval.splits)
  have items: "validate_items es = Inl e \<Longrightarrow> e = ParsingFailed" for es e
    by (induction es) (auto split: sum.splits dest: item)
  assume "parseGroceryItems ai txt = Inl err"
  then show ?thesis
    by (auto simp: parseGroceryItems_def split: ai_reply.splits dest: items)
qed

text \<open>
  C6: when the text has a line that the cache does not resolve, so that the AI is called,
  and the call fails, or its reply is not JSON, or not an array, or has an element that is
  null or lacks an article or a category, parseItemsForConfirmation returns the single
  error ParsingFailed and the store is the one before the call: nothing is saved, the
  cache hits included.
\<close>

theorem C6_all_or_nothing:
  assumes "snd (parseWithCache toLowerCase cache groceryText) \<noteq> []"
    and "ai (join_lines (snd (parseWithCache toLowerCase cache groceryText))) = CallFailed \<or>
         ai (join_lines (snd (parseWithCache toLowerCase cache groceryText))) = NotJSON \<or>
         ai (join_lines (snd (parseWithCache toLowerCase cache groceryText))) = NotArray \<or>
         (\<exists>es e. ai (join_lines (snd (parseWithCache toLowerCase cache groceryText))) = ArrayOf es \<and>
            e \<in> set es \<and>
            (case e of ElemNull \<Rightarrow> True
             | ElemFields art qty cat \<Rightarrow> \<not> truthy art \<or> \<not> truthy cat))"
  shows "parseItemsForConfirmation toLowerCase cache ai batchId now s groceryText
           = (Inl ParsingFailed, s)"
proof -
  obtain cs us where p: "parseWithCache toLowerCase cache groceryText = (cs, us)"
    by (cases "parseWithCache toLowerCase cache groceryText")
  have us: "us \<noteq> []" using assms(1) p by simp
  have "parseGroceryItems ai (join_lines us) = Inl ParsingFailed"
    using assms(2) unfolding p
    by (auto simp: parseGroceryItems_def validate_items_missing)
  then show ?thesis
    by (simp add: parseItemsForConfirmation_def p us)
qed

theorem C6_all_or_nothing_witness:
  "parseItemsForConfirmation LOWER apple_cache dead_ai ''deadbeef'' 30 shop_store list_text
     = (Inl ParsingFailed, shop_store) \<and>
   parseItemsForConfirmation LOWER apple_cache sloppy_ai ''deadbeef'' 30 shop_store list_text
     = (Inl ParsingFailed, shop_store)"
proof -
  have p: "parseWithCache LOWER apple_cache list_text =
   ([\<lparr>parsed_article = ''pommes'', parsed_quantity = 2, parsed_category = ''Fruits et legumes'',
      originalInput = ''2 pomme''\<rparr>], [''lait'', ''2 pain''])"
    by code_simp
  have a: "snd (parseWithCache LOWER apple_cache list_text) \<noteq> []"
    unfolding p by simp
  have b: "dead_ai (join_lines (snd (parseWithCache LOWER apple_cache list_text))) = CallFailed \<or>
         dead_ai (join_lines (snd (parseWithCache LOWER apple_cache list_text))) = NotJSON \<or>
         dead_ai (join_lines (snd (parseWithCache LOWER apple_cache list_text))) = NotArray \<or>
         (\<exists>es e. dead_ai (join_lines (snd (parseWithCache LOWER apple_cache list_text))) = ArrayOf es \<and>
            e \<in> set es \<and>
            (case e of ElemNull \<Rightarrow> True
             | ElemFields art qty cat \<Rightarrow> \<not> truthy art \<or> \<not> truthy cat))"
    by (simp add: dead_ai_def)
  have c: "sloppy_ai (join_lines (snd (parseWithCache LOWER apple_cache list_text))) = CallFailed \<or>
         sloppy_ai (join_lines (snd (parseWithCache LOWER apple_cache list_text))) = NotJSON \<or>
         sloppy_ai (join_lines (snd (parseWithCache LOWER apple_cache list_text))) = NotArray \<or>
         (\<exists>es e. sloppy_ai (join_lines (snd (parseWithCache LOWER apple_cache list_text))) = ArrayOf es \<and>
            e \<in> set es \<and>
            (case e of ElemNull \<Rightarrow> True
             | ElemFields art qty cat \<Rightarrow> \<not> truthy art \<or> \<not> truthy cat))"
    unfolding sloppy_ai_def
    by (intro disjI2 exI [of _ "[ElemFields (JStr ''lait'') (JNum 1) (JStr ''Produits laitiers''),
              ElemFields (JStr ''pain'') (JNum 1) JUndefined]"]
        exI [of _ "ElemFields (JStr ''pain'') (JNum 1) JUndefined"]) simp
  show ?thesis
    using C6_all_or_nothing [where ai = dead_ai and batchId = "''deadbeef''" and now = 30
          and s = shop_store, OF a b]
      C6_all_or_nothing [where ai = sloppy_ai and batchId = "''deadbeef''" and now = 30
          and s = shop_store, OF a c]
    by simp
qed

end
